theory Spec2Isabelle
  imports Main
begin

section \<open>The media engine\<close>

text \<open>
  The adapter \<^verbatim>\<open>VlcService\<close> (mycroft/audio/services/vlc/__init__.py) drives an
  external media engine: a media player, a media list player (the queue controller) and
  a media list. The engine is not code of the repository; it is modelled by the values
  the adapter reads back from it and by the commands the adapter sends to it.
\<close>

datatype playback_state = Playing | Paused | Stopped

datatype playback_mode = mode_default | mode_loop

text \<open>A media object: its locator and the three metadata entries the adapter reads.\<close>

record media =
  mrl :: string
  meta_album :: "string option"
  meta_artist :: "string option"
  meta_title :: "string option"

text \<open>
  The commands the adapter sends to the media list player. The list player carries them
  out on its own thread, so the model records them, most recent last, and leaves their
  effect on the player to a step of the engine (see \<open>engine_step\<close> below).
\<close>

datatype list_player_call =
    set_media_player
  | set_media_list
  | set_playback_mode playback_mode
  | lp_play
  | lp_stop
  | lp_next
  | lp_previous

text \<open>
  \<open>track_list\<close> is the one media list object that both \<^verbatim>\<open>self.track_list\<close> and
  the list player refer to: \<^verbatim>\<open>__init__\<close> and \<^verbatim>\<open>clear_list\<close> always install the
  same new list in both places.
\<close>

record engine =
  player_state :: playback_state
  audio_volume :: int
  play_time :: int
  media_length :: int
  player_media :: "media option"
  track_list :: "media list"
  list_player :: "list_player_call list"

definition is_playing :: "engine \<Rightarrow> bool" where
  "is_playing e = (player_state e = Playing)"

definition audio_get_volume :: "engine \<Rightarrow> int" where
  "audio_get_volume e = audio_volume e"

text \<open>
  \<^verbatim>\<open>audio_set_volume\<close> of the engine answers -1 to a volume that is out of range and
  then leaves the volume as it was; a negative volume is out of range. Any other volume
  is stored.
\<close>

definition audio_set_volume :: "int \<Rightarrow> engine \<Rightarrow> engine" where
  "audio_set_volume v e = (if v < 0 then e else e\<lparr>audio_volume := v\<rparr>)"

text \<open>
  \<^verbatim>\<open>set_pause(do_pause)\<close>: pause when the argument is not zero, play when it is
  zero. Pausing acts on a playing player and resuming on a paused one.
\<close>

definition set_pause :: "int \<Rightarrow> engine \<Rightarrow> engine" where
  "set_pause do_pause e =
     (if do_pause \<noteq> 0
      then (if player_state e = Playing then e\<lparr>player_state := Paused\<rparr> else e)
      else (if player_state e = Paused then e\<lparr>player_state := Playing\<rparr> else e))"

definition get_time :: "engine \<Rightarrow> int" where
  "get_time e = play_time e"

definition get_length :: "engine \<Rightarrow> int" where
  "get_length e = media_length e"

definition set_time :: "int \<Rightarrow> engine \<Rightarrow> engine" where
  "set_time t e = e\<lparr>play_time := t\<rparr>"

definition get_media :: "engine \<Rightarrow> media option" where
  "get_media e = player_media e"

definition media_new :: "string \<Rightarrow> media" where
  "media_new u = \<lparr>mrl = u, meta_album = None, meta_artist = None, meta_title = None\<rparr>"

definition media_list_new :: "media list" where
  "media_list_new = []"

definition add_media :: "media \<Rightarrow> engine \<Rightarrow> engine" where
  "add_media m e = e\<lparr>track_list := track_list e @ [m]\<rparr>"

definition list_player_send :: "list_player_call \<Rightarrow> engine \<Rightarrow> engine" where
  "list_player_send c e = e\<lparr>list_player := list_player e @ [c]\<rparr>"

section \<open>The adapter\<close>

text \<open>
  The configuration dictionary, with the three keys the adapter looks up; a key that is
  absent is \<open>None\<close>.
\<close>

record config =
  cfg_low_volume :: "int option"
  cfg_volume :: "int option"
  cfg_duck :: "bool option"

text \<open>\<^verbatim>\<open>self.config.get('duck', False)\<close>\<close>

definition duck_enabled :: "config \<Rightarrow> bool" where
  "duck_enabled c = (case cfg_duck c of None \<Rightarrow> False | Some b \<Rightarrow> b)"

datatype error = IndexError | AttributeError

text \<open>
  The state of a \<^verbatim>\<open>VlcService\<close>. The track callback is a function of the host, of
  the track name (or \<open>None\<close>) it is called with; \<open>host\<close> is the state of the host that
  the callback acts on. The slot \<^verbatim>\<open>_track_start_callback\<close> is declared by the base
  class \<^verbatim>\<open>AudioBackend\<close>.
\<close>

record 'h VlcService =
  engine :: engine
  config :: config
  name :: string
  normal_volume :: "int option"
  low_volume :: int
  initial_volume :: int
  volume :: int
  track_start_callback :: "(string option \<Rightarrow> 'h \<Rightarrow> 'h) option"
  host :: 'h

text \<open>
  \<^verbatim>\<open>__init__\<close>. \<open>e0\<close> is the state of the freshly created player; \<open>vol_msg\<close> is
  the answer of the bus to \<^verbatim>\<open>mycroft.volume.get\<close>, already converted
  (\<^verbatim>\<open>int(vol_msg.data["percent"] * 100)\<close>), or \<open>None\<close> when no answer came.
  A bus is present (with \<^verbatim>\<open>bus=None\<close> the constructor raises and no adapter
  exists). The values of the configuration are integers, so \<^verbatim>\<open>int(...)\<close> of the
  volume is the volume. The callback slot starts empty, as the base class leaves it.
\<close>

definition VlcService_init ::
    "config \<Rightarrow> int option \<Rightarrow> string \<Rightarrow> engine \<Rightarrow> 'h \<Rightarrow> 'h VlcService" where
  "VlcService_init cfg vol_msg nm e0 h =
     (let iv = (case vol_msg of Some v \<Rightarrow> v | None \<Rightarrow> 50) in
      \<lparr>engine = e0\<lparr>track_list := media_list_new,
                     list_player := [set_media_player, set_media_list]\<rparr>,
       config = cfg,
       name = nm,
       normal_volume = None,
       low_volume = (case cfg_low_volume cfg of Some l \<Rightarrow> l | None \<Rightarrow> 30),
       initial_volume = iv,
       volume = (case cfg_volume cfg of Some v \<Rightarrow> v | None \<Rightarrow> iv),
       track_start_callback = None,
       host = h\<rparr>)"

text \<open>
  Modelled from the spec: the base class \<^verbatim>\<open>AudioBackend\<close> (mycroft/audio/services,
  not among the sources) registers the track callback; the spec speaks of "a single
  registered callback".
\<close>

definition set_track_start_callback ::
    "'h VlcService \<Rightarrow> (string option \<Rightarrow> 'h \<Rightarrow> 'h) option \<Rightarrow> 'h VlcService" where
  "set_track_start_callback s cb = s\<lparr>track_start_callback := cb\<rparr>"

text \<open>The result of \<^verbatim>\<open>track_info\<close>: a dictionary with three keys.\<close>

record track_info_dict =
  info_album :: "string option"
  info_artists :: "string option list"
  info_name :: "string option"

text \<open>
  \<^verbatim>\<open>track_info\<close>: \<^verbatim>\<open>get_media()\<close> is \<^verbatim>\<open>None\<close> when the player has no media, and
  \<^verbatim>\<open>t.get_meta\<close> then raises \<^verbatim>\<open>AttributeError\<close>.
\<close>

definition track_info :: "'h VlcService \<Rightarrow> error + track_info_dict" where
  "track_info s =
     (case get_media (engine s) of
        None \<Rightarrow> Inl AttributeError
      | Some t \<Rightarrow> Inr \<lparr>info_album = meta_album t,
                       info_artists = [meta_artist t],
                       info_name = meta_title t\<rparr>)"

definition track_start :: "'h VlcService \<Rightarrow> (error + unit) \<times> 'h VlcService" where
  "track_start s =
     (case track_start_callback s of
        None \<Rightarrow> (Inr (), s)
      | Some cb \<Rightarrow>
          (case track_info s of
             Inl e \<Rightarrow> (Inl e, s)
           | Inr i \<Rightarrow> (Inr (), s\<lparr>host := cb (info_name i) (host s)\<rparr>)))"

definition queue_ended :: "'h VlcService \<Rightarrow> 'h VlcService" where
  "queue_ended s =
     (case track_start_callback s of
        None \<Rightarrow> s
      | Some cb \<Rightarrow> s\<lparr>host := cb None (host s)\<rparr>)"

definition supported_uris :: "'h VlcService \<Rightarrow> string list" where
  "supported_uris s = [''file'', ''http'', ''https'']"

definition clear_list :: "'h VlcService \<Rightarrow> 'h VlcService" where
  "clear_list s =
     s\<lparr>engine := list_player_send set_media_list ((engine s)\<lparr>track_list := media_list_new\<rparr>)\<rparr>"

text \<open>
  An entry of the argument of \<^verbatim>\<open>add_list\<close>: a URI, or a list of URIs
  (\<^verbatim>\<open>isinstance(t, list)\<close>).
\<close>

datatype track = Uri string | Uris "string list"

text \<open>
  \<^verbatim>\<open>add_list\<close>: the loop over the entries. \<^verbatim>\<open>t[0]\<close> of an empty list raises
  \<^verbatim>\<open>IndexError\<close>, which ends the loop; what was added before stays added.
\<close>

fun add_list :: "'h VlcService \<Rightarrow> track list \<Rightarrow> (error + unit) \<times> 'h VlcService" where
  "add_list s [] = (Inr (), s)"
| "add_list s (Uri u # ts) =
     add_list (s\<lparr>engine := add_media (media_new u) (engine s)\<rparr>) ts"
| "add_list s (Uris [] # ts) = (Inl IndexError, s)"
| "add_list s (Uris (u # us) # ts) =
     add_list (s\<lparr>engine := add_media (media_new u) (engine s)\<rparr>) ts"

definition play :: "'h VlcService \<Rightarrow> bool \<Rightarrow> 'h VlcService" where
  "play s repeat =
     (let e1 = (if repeat then list_player_send (set_playback_mode mode_loop) (engine s)
                else list_player_send (set_playback_mode mode_default) (engine s));
          e2 = list_player_send lp_play e1
      in s\<lparr>engine := audio_set_volume (volume s) e2\<rparr>)"

definition pause :: "'h VlcService \<Rightarrow> 'h VlcService" where
  "pause s = s\<lparr>engine := set_pause 1 (engine s)\<rparr>"

definition resume :: "'h VlcService \<Rightarrow> 'h VlcService" where
  "resume s = s\<lparr>engine := set_pause 0 (engine s)\<rparr>"

definition next_track :: "'h VlcService \<Rightarrow> 'h VlcService" where
  "next_track s = s\<lparr>engine := list_player_send lp_next (engine s)\<rparr>"

definition previous :: "'h VlcService \<Rightarrow> 'h VlcService" where
  "previous s = s\<lparr>engine := list_player_send lp_previous (engine s)\<rparr>"

text \<open>
  \<^verbatim>\<open>lower_volume\<close>. The captured volume is compared with \<^verbatim>\<open>low_volume\<close> after it
  has been stored in \<^verbatim>\<open>normal_volume\<close>.
\<close>

definition lower_volume :: "'h VlcService \<Rightarrow> 'h VlcService" where
  "lower_volume s =
     (if normal_volume s = None \<and> is_playing (engine s) \<and> duck_enabled (config s)
      then (let nv = audio_get_volume (engine s);
                s1 = s\<lparr>normal_volume := Some nv\<rparr>
            in if nv < low_volume s1 then pause s1
               else s1\<lparr>engine := audio_set_volume (low_volume s1) (engine s1)\<rparr>)
      else s)"

text \<open>
  \<^verbatim>\<open>restore_volume\<close>. The test \<^verbatim>\<open>self.normal_volume and ...\<close> is Python's
  truth value of \<^verbatim>\<open>normal_volume\<close>: false for \<^verbatim>\<open>None\<close> and for 0.
\<close>

definition restore_volume :: "'h VlcService \<Rightarrow> 'h VlcService" where
  "restore_volume s =
     (case normal_volume s of
        Some nv \<Rightarrow>
          (if nv \<noteq> 0 \<and> nv > low_volume s
           then s\<lparr>engine := audio_set_volume nv (engine s), normal_volume := None\<rparr>
           else resume (s\<lparr>normal_volume := None\<rparr>))
      | None \<Rightarrow> resume (s\<lparr>normal_volume := None\<rparr>))"

definition stop :: "'h VlcService \<Rightarrow> bool \<times> 'h VlcService" where
  "stop s =
     (if is_playing (engine s)
      then (let s1 = restore_volume s;
                s2 = clear_list s1
            in (True, s2\<lparr>engine := list_player_send lp_stop (engine s2)\<rparr>))
      else (False, s))"

definition seek_forward :: "'h VlcService \<Rightarrow> int \<Rightarrow> 'h VlcService" where
  "seek_forward s seconds =
     (let ms = seconds * 1000;
          new_time = get_time (engine s) + ms;
          duration = get_length (engine s);
          new_time' = (if new_time > duration then duration else new_time)
      in s\<lparr>engine := set_time new_time' (engine s)\<rparr>)"

definition seek_backward :: "'h VlcService \<Rightarrow> int \<Rightarrow> 'h VlcService" where
  "seek_backward s seconds =
     (let ms = seconds * 1000;
          new_time = get_time (engine s) - ms;
          new_time' = (if new_time < 0 then 0 else new_time)
      in s\<lparr>engine := set_time new_time' (engine s)\<rparr>)"

section \<open>Runs of the adapter\<close>

text \<open>
  What can happen to a \<^verbatim>\<open>VlcService\<close> after its creation: a call of one of its
  methods, the delivery of one of the two engine events, the registration of the track
  callback, or a step of the engine itself, which changes what the player reports
  (state, volume, time, length, media) as it likes.
\<close>

datatype 'h call =
    call_supported_uris
  | call_clear_list
  | call_add_list "track list"
  | call_play bool
  | call_stop
  | call_pause
  | call_resume
  | call_next
  | call_previous
  | call_lower_volume
  | call_restore_volume
  | call_track_info
  | call_seek_forward int
  | call_seek_backward int
  | call_set_track_start_callback "(string option \<Rightarrow> 'h \<Rightarrow> 'h) option"
  | event_track_start
  | event_queue_ended
  | engine_step engine

text \<open>
  The state after one of them; a return value is dropped, and after an exception the
  state is the one the method had reached.
\<close>

fun exec :: "'h call \<Rightarrow> 'h VlcService \<Rightarrow> 'h VlcService" where
  "exec call_supported_uris s = s"
| "exec call_clear_list s = clear_list s"
| "exec (call_add_list ts) s = snd (add_list s ts)"
| "exec (call_play repeat) s = play s repeat"
| "exec call_stop s = snd (stop s)"
| "exec call_pause s = pause s"
| "exec call_resume s = resume s"
| "exec call_next s = next_track s"
| "exec call_previous s = previous s"
| "exec call_lower_volume s = lower_volume s"
| "exec call_restore_volume s = restore_volume s"
| "exec call_track_info s = s"
| "exec (call_seek_forward n) s = seek_forward s n"
| "exec (call_seek_backward n) s = seek_backward s n"
| "exec (call_set_track_start_callback cb) s = set_track_start_callback s cb"
| "exec event_track_start s = snd (track_start s)"
| "exec event_queue_ended s = queue_ended s"
| "exec (engine_step e) s =
     s\<lparr>engine := e\<lparr>track_list := track_list (engine s),
                      list_player := list_player (engine s)\<rparr>\<rparr>"

fun run :: "'h VlcService \<Rightarrow> 'h call list \<Rightarrow> 'h VlcService" where
  "run s [] = s"
| "run s (c # cs) = run (exec c s) cs"

text \<open>
  The words of the specification, for comparison with the code: a call of
  \<^verbatim>\<open>lower_volume\<close> takes effect (captures the engine volume) when
  \<^verbatim>\<open>normal_volume\<close> is null, the player is playing and ducking is enabled.
\<close>

definition duck_takes_effect :: "'h VlcService \<Rightarrow> bool" where
  "duck_takes_effect s =
     (normal_volume s = None \<and> is_playing (engine s) \<and> duck_enabled (config s))"

text \<open>
  \<open>ducked_step d c s\<close>: whether, after \<open>c\<close> has run in state \<open>s\<close>, a call of
  \<^verbatim>\<open>lower_volume\<close> has taken effect and \<^verbatim>\<open>restore_volume\<close> has not run since,
  given that this was \<open>d\<close> before. \<^verbatim>\<open>restore_volume\<close> runs when it is called, and
  inside \<^verbatim>\<open>stop\<close> when the player is playing.
\<close>

fun ducked_step :: "bool \<Rightarrow> 'h call \<Rightarrow> 'h VlcService \<Rightarrow> bool" where
  "ducked_step d call_lower_volume s = (d \<or> duck_takes_effect s)"
| "ducked_step d call_restore_volume s = False"
| "ducked_step d call_stop s = (d \<and> \<not> is_playing (engine s))"
| "ducked_step d c s = d"

fun ducked :: "bool \<Rightarrow> 'h VlcService \<Rightarrow> 'h call list \<Rightarrow> bool" where
  "ducked d s [] = d"
| "ducked d s (c # cs) = ducked (ducked_step d c s) (exec c s) cs"

section \<open>Entries of a track list\<close>

text \<open>The URI that an entry stands for: the entry itself, or the first of its list.\<close>

fun first_uri :: "track \<Rightarrow> string" where
  "first_uri (Uri u) = u"
| "first_uri (Uris us) = hd us"

section \<open>Example states\<close>

definition example_config :: config where
  "example_config = \<lparr>cfg_low_volume = Some 30, cfg_volume = None, cfg_duck = Some True\<rparr>"

definition example_engine :: "playback_state \<Rightarrow> int \<Rightarrow> engine" where
  "example_engine st v =
     \<lparr>player_state = st, audio_volume = v, play_time = 5000, media_length = 60000,
      player_media = Some (media_new ''file:///a.mp3''),
      track_list = [], list_player = []\<rparr>"

text \<open>The example host keeps the list of the names its callback was called with.\<close>

definition example_callback :: "string option \<Rightarrow> string option list \<Rightarrow> string option list" where
  "example_callback n h = h @ [n]"

definition example_service :: "playback_state \<Rightarrow> int \<Rightarrow> string option list VlcService" where
  "example_service st v =
     set_track_start_callback
       (VlcService_init example_config None ''vlc'' (example_engine st v) [])
       (Some example_callback)"

section \<open>Facts about ducking and restoring\<close>

lemmas example_defs =
  example_service_def set_track_start_callback_def VlcService_init_def
  example_config_def example_engine_def media_list_new_def

lemma lower_volume_pause_path:
  assumes "normal_volume s = None" and "is_playing (engine s)" and "duck_enabled (config s)"
    and "audio_volume (engine s) < low_volume s"
  shows "lower_volume s = pause (s\<lparr>normal_volume := Some (audio_volume (engine s))\<rparr>)"
  using assms by (simp add: lower_volume_def audio_get_volume_def Let_def)

lemma lower_volume_duck_path:
  assumes "normal_volume s = None" and "is_playing (engine s)" and "duck_enabled (config s)"
    and "low_volume s \<le> audio_volume (engine s)"
  shows "lower_volume s =
           s\<lparr>normal_volume := Some (audio_volume (engine s)),
              engine := audio_set_volume (low_volume s) (engine s)\<rparr>"
  using assms by (simp add: lower_volume_def audio_get_volume_def Let_def)

lemma lower_volume_noop:
  assumes "normal_volume s \<noteq> None \<or> \<not> is_playing (engine s) \<or> \<not> duck_enabled (config s)"
  shows "lower_volume s = s"
  using assms by (auto simp add: lower_volume_def)

lemma normal_volume_lower_volume:
  "normal_volume (lower_volume s) =
     (if normal_volume s = None \<and> is_playing (engine s) \<and> duck_enabled (config s)
      then Some (audio_volume (engine s)) else normal_volume s)"
  by (simp add: lower_volume_def audio_get_volume_def Let_def pause_def)

lemma normal_volume_restore_volume: "normal_volume (restore_volume s) = None"
  by (simp add: restore_volume_def resume_def split: option.splits)

lemma normal_volume_add_list: "normal_volume (snd (add_list s ts)) = normal_volume s"
  by (induction s ts rule: add_list.induct) simp_all

lemma normal_volume_track_start: "normal_volume (snd (track_start s)) = normal_volume s"
  by (simp add: track_start_def split: option.splits sum.splits)

lemma normal_volume_stop:
  "normal_volume (snd (stop s)) = (if is_playing (engine s) then None else normal_volume s)"
  by (simp add: stop_def Let_def clear_list_def normal_volume_restore_volume)

section \<open>The duck and restore round trip\<close>

text \<open>
  C1. When ducking is enabled, the player is playing, \<^verbatim>\<open>normal_volume\<close> is null and
  the engine volume V is at least \<^verbatim>\<open>low_volume\<close>, \<^verbatim>\<open>lower_volume\<close> followed by
  \<^verbatim>\<open>restore_volume\<close> leaves the engine volume at V and \<^verbatim>\<open>normal_volume\<close> null.
  For V above \<^verbatim>\<open>low_volume\<close> and not 0 the volume is set back to V; for V equal to
  \<^verbatim>\<open>low_volume\<close> the duck has set it to V already. For V = 0 above a negative
  \<^verbatim>\<open>low_volume\<close>, \<^verbatim>\<open>restore_volume\<close> takes its resume branch (0 counts as false);
  the volume is V all the same, since the engine has not accepted the negative target.
\<close>

theorem duck_restore_round_trip:
  assumes "normal_volume s = None" and "is_playing (engine s)" and "duck_enabled (config s)"
    and "low_volume s \<le> audio_volume (engine s)"
  shows "audio_volume (engine (restore_volume (lower_volume s))) = audio_volume (engine s)
       \<and> normal_volume (restore_volume (lower_volume s)) = None"
  using assms
  by (simp add: lower_volume_duck_path restore_volume_def resume_def audio_set_volume_def
      set_pause_def)

text \<open>
  The example of the specification: V = 80 and \<^verbatim>\<open>low_volume\<close> = 30; the duck sets the
  volume to 30 and \<^verbatim>\<open>normal_volume\<close> to 80, the restore sets the volume back to 80.
\<close>

theorem duck_restore_round_trip_witness:
  "normal_volume (example_service Playing 80) = None
   \<and> is_playing (engine (example_service Playing 80))
   \<and> duck_enabled (config (example_service Playing 80))
   \<and> low_volume (example_service Playing 80) \<le> audio_volume (engine (example_service Playing 80))
   \<and> audio_volume (engine (lower_volume (example_service Playing 80))) = 30
   \<and> normal_volume (lower_volume (example_service Playing 80)) = Some 80
   \<and> audio_volume (engine (restore_volume (lower_volume (example_service Playing 80)))) = 80
   \<and> normal_volume (restore_volume (lower_volume (example_service Playing 80))) = None"
proof -
  let ?s = "example_service Playing 80"
  have h1: "normal_volume ?s = None"
    and h2: "is_playing (engine ?s)"
    and h3: "duck_enabled (config ?s)"
    and h4: "low_volume ?s \<le> audio_volume (engine ?s)"
    by (simp_all add: example_defs is_playing_def duck_enabled_def)
  have h5: "audio_volume (engine (lower_volume ?s)) = 30"
    and h6: "normal_volume (lower_volume ?s) = Some 80"
    by (simp_all add: lower_volume_def Let_def audio_get_volume_def audio_set_volume_def
        example_defs is_playing_def duck_enabled_def)
  from duck_restore_round_trip [OF h1 h2 h3 h4] h1 h2 h3 h4 h5 h6 show ?thesis
    by (simp add: example_defs)
qed

section \<open>Seeking\<close>

text \<open>
  C2. With P the current time, D the length and S the number of seconds,
  \<^verbatim>\<open>seek_forward(S)\<close> sets the time of the player to min (P + S * 1000) D and
  \<^verbatim>\<open>seek_backward(S)\<close> sets it to max (P - S * 1000) 0.
\<close>

theorem seek_clamping:
  "play_time (engine (seek_forward s n))
     = min (get_time (engine s) + n * 1000) (get_length (engine s))
   \<and> play_time (engine (seek_backward s n)) = max (get_time (engine s) - n * 1000) 0"
  by (simp add: seek_forward_def seek_backward_def set_time_def Let_def min_def max_def)

section \<open>Stopping\<close>

text \<open>
  C3. When the player is not playing, \<^verbatim>\<open>stop\<close> returns False and the whole state,
  with the track list, the engine volume, \<^verbatim>\<open>normal_volume\<close> and the commands sent to
  the list player, is as it was.
\<close>

theorem stop_not_playing:
  "\<not> is_playing (engine s) \<Longrightarrow> stop s = (False, s)"
  by (simp add: stop_def)

theorem stop_not_playing_witness:
  "\<not> is_playing (engine (example_service Stopped 80))
   \<and> stop (example_service Stopped 80) = (False, example_service Stopped 80)"
proof -
  have h: "\<not> is_playing (engine (example_service Stopped 80))"
    by (simp add: example_defs is_playing_def)
  from stop_not_playing [OF h] h show ?thesis by simp
qed

section \<open>The low volume pause path\<close>

text \<open>
  C4. When ducking is enabled, the player is playing, \<^verbatim>\<open>normal_volume\<close> is null and
  the engine volume V is below \<^verbatim>\<open>low_volume\<close>, \<^verbatim>\<open>lower_volume\<close> pauses the player,
  leaves the engine volume as it is and stores V in \<^verbatim>\<open>normal_volume\<close>; a following
  \<^verbatim>\<open>restore_volume\<close> makes the player play again and leaves the engine volume as it
  is: the engine is then as it was before the duck.
\<close>

theorem low_volume_pause_path:
  assumes "duck_enabled (config s)" and "is_playing (engine s)" and "normal_volume s = None"
    and "audio_volume (engine s) < low_volume s"
  shows "engine (lower_volume s) = (engine s)\<lparr>player_state := Paused\<rparr>
       \<and> audio_volume (engine (lower_volume s)) = audio_volume (engine s)
       \<and> normal_volume (lower_volume s) = Some (audio_volume (engine s))
       \<and> player_state (engine (restore_volume (lower_volume s))) = Playing
       \<and> audio_volume (engine (restore_volume (lower_volume s))) = audio_volume (engine s)
       \<and> engine (restore_volume (lower_volume s)) = engine s"
  using assms
  by (simp add: lower_volume_pause_path restore_volume_def pause_def resume_def set_pause_def
      is_playing_def)

theorem low_volume_pause_path_witness:
  "duck_enabled (config (example_service Playing 20))
   \<and> is_playing (engine (example_service Playing 20))
   \<and> normal_volume (example_service Playing 20) = None
   \<and> audio_volume (engine (example_service Playing 20)) < low_volume (example_service Playing 20)
   \<and> player_state (engine (lower_volume (example_service Playing 20))) = Paused
   \<and> audio_volume (engine (lower_volume (example_service Playing 20))) = 20
   \<and> normal_volume (lower_volume (example_service Playing 20)) = Some 20
   \<and> player_state (engine (restore_volume (lower_volume (example_service Playing 20)))) = Playing
   \<and> audio_volume (engine (restore_volume (lower_volume (example_service Playing 20)))) = 20"
proof -
  let ?s = "example_service Playing 20"
  have h1: "duck_enabled (config ?s)"
    and h2: "is_playing (engine ?s)"
    and h3: "normal_volume ?s = None"
    and h4: "audio_volume (engine ?s) < low_volume ?s"
    by (simp_all add: example_defs is_playing_def duck_enabled_def)
  have v: "audio_volume (engine ?s) = 20"
    by (simp add: example_defs)
  from low_volume_pause_path [OF h1 h2 h3 h4] h1 h2 h3 h4 v show ?thesis
    by (simp add: is_playing_def)
qed

section \<open>Restoring without a volume to restore\<close>

text \<open>
  C5. When \<^verbatim>\<open>normal_volume\<close> is null or does not exceed \<^verbatim>\<open>low_volume\<close>,
  \<^verbatim>\<open>restore_volume\<close> sets \<^verbatim>\<open>normal_volume\<close> to null and calls \<^verbatim>\<open>resume\<close>, and
  the engine receives nothing but that \<^verbatim>\<open>set_pause(0)\<close>: its volume is as it was.
  This holds in particular when the adapter was never ducked.
\<close>

theorem restore_volume_resumes:
  assumes "normal_volume s = None \<or> (\<exists>nv. normal_volume s = Some nv \<and> nv \<le> low_volume s)"
  shows "restore_volume s = resume (s\<lparr>normal_volume := None\<rparr>)
       \<and> normal_volume (restore_volume s) = None
       \<and> engine (restore_volume s) = set_pause 0 (engine s)
       \<and> audio_volume (engine (restore_volume s)) = audio_volume (engine s)"
  using assms
  by (auto simp add: restore_volume_def resume_def set_pause_def split: option.splits)

text \<open>A paused adapter that was never ducked: the restore makes it play.\<close>

theorem restore_volume_resumes_witness:
  "normal_volume (example_service Paused 80) = None
   \<and> normal_volume (restore_volume (example_service Paused 80)) = None
   \<and> player_state (engine (restore_volume (example_service Paused 80))) = Playing
   \<and> audio_volume (engine (restore_volume (example_service Paused 80))) = 80"
proof -
  let ?s = "example_service Paused 80"
  have h: "normal_volume ?s = None"
    by (simp add: example_defs)
  then have "normal_volume ?s = None \<or> (\<exists>nv. normal_volume ?s = Some nv \<and> nv \<le> low_volume ?s)"
    by simp
  from restore_volume_resumes [OF this]
  have n: "normal_volume (restore_volume ?s) = None"
    and e: "engine (restore_volume ?s) = set_pause 0 (engine ?s)"
    by blast+
  have "player_state (set_pause 0 (engine ?s)) = Playing"
    and "audio_volume (set_pause 0 (engine ?s)) = 80"
    by (simp_all add: example_defs set_pause_def)
  with h n e show ?thesis by simp
qed

section \<open>Ducking twice\<close>

text \<open>
  C6. In every state, \<^verbatim>\<open>lower_volume\<close> called twice in a row gives the state that one
  call gives, and a call does nothing when \<^verbatim>\<open>normal_volume\<close> is not null or ducking
  is disabled.
\<close>

theorem lower_volume_idempotent:
  "lower_volume (lower_volume s) = lower_volume s
   \<and> (normal_volume s \<noteq> None \<or> \<not> duck_enabled (config s) \<longrightarrow> lower_volume s = s)"
proof -
  have "normal_volume (lower_volume s) \<noteq> None \<or> lower_volume s = s"
    by (simp add: lower_volume_def Let_def pause_def)
  then have "lower_volume (lower_volume s) = lower_volume s"
    by (auto simp add: lower_volume_noop)
  then show ?thesis
    by (auto simp add: lower_volume_noop)
qed

theorem lower_volume_idempotent_witness:
  "normal_volume (lower_volume (example_service Playing 80)) \<noteq> None
   \<and> audio_volume (engine (lower_volume (example_service Playing 80))) = 30
   \<and> lower_volume (lower_volume (example_service Playing 80))
       = lower_volume (example_service Playing 80)"
proof -
  let ?s = "lower_volume (example_service Playing 80)"
  have h: "normal_volume ?s \<noteq> None" and v: "audio_volume (engine ?s) = 30"
    by (simp_all add: lower_volume_def Let_def audio_get_volume_def audio_set_volume_def
        example_defs is_playing_def duck_enabled_def)
  from lower_volume_idempotent [of ?s] h
  have "lower_volume ?s = ?s" by blast
  with h v show ?thesis by simp
qed

section \<open>The queue ended event\<close>

text \<open>
  C7. With a track callback registered, the event "queue ended" calls the callback once,
  with null, and changes nothing else; with no callback registered it calls nothing and
  changes nothing.
\<close>

theorem queue_ended_relay:
  "(track_start_callback s = Some cb \<longrightarrow> queue_ended s = s\<lparr>host := cb None (host s)\<rparr>)
   \<and> (track_start_callback s = None \<longrightarrow> queue_ended s = s)"
  by (simp add: queue_ended_def)

text \<open>The example host has received one call, with null.\<close>

theorem queue_ended_relay_witness:
  "track_start_callback (example_service Playing 80) = Some example_callback
   \<and> host (example_service Playing 80) = []
   \<and> host (queue_ended (example_service Playing 80)) = [None]"
proof -
  let ?s = "example_service Playing 80"
  have h: "track_start_callback ?s = Some example_callback" and e: "host ?s = []"
    by (simp_all add: example_defs)
  from queue_ended_relay [of ?s example_callback] h
  have "queue_ended ?s = ?s\<lparr>host := example_callback None (host ?s)\<rparr>" by blast
  with h e show ?thesis by (simp add: example_callback_def)
qed

section \<open>The invariant of the ducked volume\<close>

lemma ducked_step_exec:
  "(normal_volume (exec c s) \<noteq> None) = ducked_step (normal_volume s \<noteq> None) c s"
proof (cases c)
  case call_lower_volume
  then show ?thesis
    by (auto simp add: normal_volume_lower_volume duck_takes_effect_def)
next
  case call_stop
  then show ?thesis by (simp add: normal_volume_stop)
qed (simp_all add: normal_volume_restore_volume normal_volume_add_list normal_volume_track_start
      clear_list_def play_def pause_def resume_def next_track_def previous_def seek_forward_def
      seek_backward_def set_track_start_callback_def queue_ended_def Let_def split: option.splits)

lemma ducked_run:
  "(normal_volume (run s cs) \<noteq> None) = ducked (normal_volume s \<noteq> None) s cs"
proof (induction cs arbitrary: s)
  case Nil
  show ?case by simp
next
  case (Cons c cs)
  show ?case by (simp only: run.simps ducked.simps Cons.IH ducked_step_exec)
qed

text \<open>
  C8. In every state that a newly created adapter reaches by calls of its methods,
  events and steps of the engine, \<^verbatim>\<open>normal_volume\<close> is not null exactly when a call
  of \<^verbatim>\<open>lower_volume\<close> has taken effect and \<^verbatim>\<open>restore_volume\<close> has not run since
  (on its own or inside \<^verbatim>\<open>stop\<close>).
\<close>

theorem normal_volume_invariant:
  "(normal_volume (run (VlcService_init cfg vol_msg nm e0 h) cs) \<noteq> None)
     = ducked False (VlcService_init cfg vol_msg nm e0 h) cs"
proof -
  have "normal_volume (VlcService_init cfg vol_msg nm e0 h) = None"
    by (simp add: VlcService_init_def Let_def)
  then have "(normal_volume (VlcService_init cfg vol_msg nm e0 h) \<noteq> None) = False"
    by simp
  then show ?thesis by (simp only: ducked_run)
qed

text \<open>
  A run: the engine starts to play at volume 80, the adapter ducks, and then stops. After
  the duck \<^verbatim>\<open>normal_volume\<close> is 80; after the stop, which restores, it is null.
\<close>

theorem normal_volume_invariant_witness:
  "normal_volume (run (VlcService_init example_config None ''vlc'' (example_engine Stopped 50) ())
      [engine_step (example_engine Playing 80), call_lower_volume]) = Some 80
   \<and> ducked False (VlcService_init example_config None ''vlc'' (example_engine Stopped 50) ())
      [engine_step (example_engine Playing 80), call_lower_volume]
   \<and> normal_volume (run (VlcService_init example_config None ''vlc'' (example_engine Stopped 50) ())
      [engine_step (example_engine Playing 80), call_lower_volume, call_stop]) = None
   \<and> \<not> ducked False (VlcService_init example_config None ''vlc'' (example_engine Stopped 50) ())
      [engine_step (example_engine Playing 80), call_lower_volume, call_stop]"
proof -
  let ?s0 = "VlcService_init example_config None ''vlc'' (example_engine Stopped 50) ()"
  let ?cs = "[engine_step (example_engine Playing 80), call_lower_volume]"
  let ?ds = "[engine_step (example_engine Playing 80), call_lower_volume, call_stop]"
  have a: "normal_volume (run ?s0 ?cs) = Some 80"
    by (simp add: lower_volume_def Let_def audio_get_volume_def audio_set_volume_def
        VlcService_init_def example_config_def example_engine_def is_playing_def
        duck_enabled_def)
  have b: "normal_volume (run ?s0 ?ds) = None"
    by (simp add: normal_volume_stop lower_volume_def Let_def audio_get_volume_def
        audio_set_volume_def VlcService_init_def example_config_def example_engine_def
        is_playing_def duck_enabled_def)
  from a have "normal_volume (run ?s0 ?cs) \<noteq> None" by simp
  with normal_volume_invariant [of example_config None "''vlc''" "example_engine Stopped 50" "()" ?cs]
  have c: "ducked False ?s0 ?cs" by blast
  from b normal_volume_invariant [of example_config None "''vlc''" "example_engine Stopped 50" "()" ?ds]
  have d: "\<not> ducked False ?s0 ?ds" by blast
  from a b c d show ?thesis by blast
qed

section \<open>Adding tracks\<close>

text \<open>
  C9, as amended. When no entry of the argument is an empty list, \<^verbatim>\<open>add_list\<close> raises
  nothing and appends to the track list, in the order of the argument, one media for each
  entry: for a URI the URI, for a list of any length from one its first element; the
  other elements of a list are dropped.
\<close>

theorem add_list_first_elements:
  "Uris [] \<notin> set ts \<Longrightarrow>
   add_list s ts =
     (Inr (), s\<lparr>engine := (engine s)\<lparr>track_list :=
                   track_list (engine s) @ map (\<lambda>t. media_new (first_uri t)) ts\<rparr>\<rparr>)"
  by (induction s ts rule: add_list.induct) (simp_all add: add_media_def)

theorem add_list_first_elements_witness:
  "Uris [] \<notin> set [Uri ''a'', Uris [''b'', ''c'', ''d''], Uris [''e'']]
   \<and> fst (add_list (example_service Stopped 80)
        [Uri ''a'', Uris [''b'', ''c'', ''d''], Uris [''e'']]) = Inr ()
   \<and> track_list (engine (snd (add_list (example_service Stopped 80)
        [Uri ''a'', Uris [''b'', ''c'', ''d''], Uris [''e'']])))
       = [media_new ''a'', media_new ''b'', media_new ''e'']"
proof -
  let ?ts = "[Uri ''a'', Uris [''b'', ''c'', ''d''], Uris [''e'']]"
  have h: "Uris [] \<notin> set ?ts" by simp
  have e: "track_list (engine (example_service Stopped 80)) = []"
    by (simp add: example_defs)
  from add_list_first_elements [OF h, of "example_service Stopped 80"] h e show ?thesis
    by simp
qed

text \<open>
  An entry that is an empty list: \<^verbatim>\<open>t[0]\<close> raises \<^verbatim>\<open>IndexError\<close>. The entry before
  it has been appended, the entry after it is never appended.
\<close>

theorem add_list_empty_entry_counterexample:
  "fst (add_list (example_service Stopped 80) [Uri ''a'', Uris [], Uri ''b'']) = Inl IndexError
   \<and> track_list (engine (snd (add_list (example_service Stopped 80)
        [Uri ''a'', Uris [], Uri ''b''])))
       = [media_new ''a'']"
  by (simp add: add_media_def example_defs Let_def)

section \<open>Stopping after the low volume pause\<close>

text \<open>
  C10. After \<^verbatim>\<open>lower_volume\<close> has taken its pause path (ducking enabled, player
  playing, \<^verbatim>\<open>normal_volume\<close> null, engine volume below \<^verbatim>\<open>low_volume\<close>) the player is
  paused and \<^verbatim>\<open>normal_volume\<close> is not null; the paused player reports that it is not
  playing, so \<^verbatim>\<open>stop\<close> returns False and leaves the state as it is: the track list,
  the commands sent to the list player and \<^verbatim>\<open>normal_volume\<close> are untouched.
\<close>

theorem stop_after_low_volume_pause:
  assumes "duck_enabled (config s)" and "is_playing (engine s)" and "normal_volume s = None"
    and "audio_volume (engine s) < low_volume s"
  shows "player_state (engine (lower_volume s)) = Paused
       \<and> normal_volume (lower_volume s) \<noteq> None
       \<and> \<not> is_playing (engine (lower_volume s))
       \<and> stop (lower_volume s) = (False, lower_volume s)
       \<and> track_list (engine (snd (stop (lower_volume s)))) = track_list (engine s)
       \<and> list_player (engine (snd (stop (lower_volume s)))) = list_player (engine s)
       \<and> normal_volume (snd (stop (lower_volume s))) = Some (audio_volume (engine s))"
  using assms
  by (simp add: lower_volume_pause_path stop_def pause_def set_pause_def is_playing_def)

theorem stop_after_low_volume_pause_witness:
  "duck_enabled (config (example_service Playing 10))
   \<and> is_playing (engine (example_service Playing 10))
   \<and> normal_volume (example_service Playing 10) = None
   \<and> audio_volume (engine (example_service Playing 10)) < low_volume (example_service Playing 10)
   \<and> fst (stop (lower_volume (example_service Playing 10))) = False
   \<and> normal_volume (snd (stop (lower_volume (example_service Playing 10)))) = Some 10
   \<and> track_list (engine (snd (stop (lower_volume (example_service Playing 10))))) = []"
proof -
  let ?s = "example_service Playing 10"
  have h1: "duck_enabled (config ?s)"
    and h2: "is_playing (engine ?s)"
    and h3: "normal_volume ?s = None"
    and h4: "audio_volume (engine ?s) < low_volume ?s"
    by (simp_all add: example_defs is_playing_def duck_enabled_def)
  have v: "audio_volume (engine ?s) = 10" and t: "track_list (engine ?s) = []"
    by (simp_all add: example_defs)
  from stop_after_low_volume_pause [OF h1 h2 h3 h4]
  have a: "stop (lower_volume ?s) = (False, lower_volume ?s)"
    and b: "normal_volume (snd (stop (lower_volume ?s))) = Some (audio_volume (engine ?s))"
    and c: "track_list (engine (snd (stop (lower_volume ?s)))) = track_list (engine ?s)"
    by blast+
  from a have "fst (stop (lower_volume ?s)) = False" by simp
  with b c h1 h2 h3 h4 v t show ?thesis by simp
qed

end
